theory Spec2Isabelle
  imports Main "HOL-Library.Sublist"
begin

section \<open>Python string primitives used by run_local.py\<close>










definition contains :: "string \<Rightarrow> string \<Rightarrow> bool" where
  \<comment> \<open>\<open>needle in s\<close>\<close>
  "contains s needle = sublist needle s"

section \<open>Insertion-ordered dictionaries\<close>




section \<open>Key-file parsing\<close>










section \<open>Environment-file synthesis\<close>





section \<open>The files, the terminal and \<open>create_env_from_keys\<close>\<close>

datatype exn = KeyboardInterrupt | EOFError | OSError | CalledProcessError

datatype message =
    Msg_no_valid_keys  \<comment> \<open>line 128\<close>
  | Msg_enter_keys  \<comment> \<open>line 141\<close>
  | Prompt_gemini  \<comment> \<open>the prompt of line 142\<close>
  | Prompt_openai  \<comment> \<open>the prompt of line 143\<close>
  | Msg_env_created  \<comment> \<open>line 132\<close>
  | Msg_env_interrupted  \<comment> \<open>line 134\<close>
  | Msg_env_failed exn  \<comment> \<open>line 136\<close>
  | Msg_installing  \<comment> \<open>line 31\<close>
  | Msg_install_done  \<comment> \<open>line 55\<close>
  | Msg_install_failed  \<comment> \<open>line 61\<close>
  | Msg_venv_detected  \<comment> \<open>line 67\<close>
  | Msg_venv_create_failed  \<comment> \<open>line 74\<close>
  | Msg_venv_installed  \<comment> \<open>line 91\<close>
  | Msg_venv_hint  \<comment> \<open>line 92\<close>
  | Msg_venv_install_failed  \<comment> \<open>line 95\<close>
  | Msg_starting  \<comment> \<open>line 220\<close>
  | Msg_url  \<comment> \<open>line 221\<close>
  | Msg_how_to_stop  \<comment> \<open>line 222\<close>
  | Msg_rule  \<comment> \<open>line 223\<close>
  | Msg_app_stopped  \<comment> \<open>line 233\<close>
  | Msg_app_failed  \<comment> \<open>line 235\<close>











section \<open>The dependency installer\<close>

record captured =
  returncode :: int
  stdout :: string
  stderr :: string

text \<open>
  What the host answers to the three commands the installer may run. An exit status
  is \<open>Some rc\<close>; \<open>None\<close> is a command that could not be started, for which
  \<open>subprocess.run\<close> raises \<open>OSError\<close>.
\<close>

record host =
  sys_executable :: string
  os_name :: string
  system_pip :: "captured option"
  venv_exists :: bool
  venv_create :: "int option"
  venv_pip :: "int option"

datatype event =
    Print message
  | Stdout_write string
  | Stderr_write string
  | Run "string list"

definition run_checked :: "string list \<Rightarrow> int option \<Rightarrow> event list \<times> (exn + unit)" where
  \<comment> \<open>\<open>subprocess.run(cmd, check=True)\<close>\<close>
  "run_checked cmd outcome =
     ([Run cmd],
      case outcome of
        None \<Rightarrow> Inl OSError
      | Some rc \<Rightarrow> if rc = 0 then Inr () else Inl CalledProcessError)"

definition venv_dir :: string where
  "venv_dir = ''.venv''"

definition resolve_venv_python :: "string \<Rightarrow> string \<Rightarrow> string" where
  \<comment> \<open>\<open>str\<close> of the joined path: backslashes on \<open>nt\<close>, slashes elsewhere\<close>
  "resolve_venv_python name dir =
     (if name = ''nt''
      then dir @ [CHR 0x5C] @ ''Scripts'' @ [CHR 0x5C] @ ''python.exe''
      else dir @ ''/'' @ ''bin'' @ ''/'' @ ''python'')"

definition venv_command :: "host \<Rightarrow> string list" where
  "venv_command h = [sys_executable h, ''-m'', ''venv'', venv_dir]"

definition pip_command :: "string \<Rightarrow> string list" where
  "pip_command python = [python, ''-m'', ''pip'', ''install'', ''-r'', ''requirements.txt'']"

definition install_with_virtualenv :: "host \<Rightarrow> event list \<times> (exn + string option)" where
  "install_with_virtualenv h =
     (let t0 = [Print Msg_venv_detected];
          created = (if \<not> venv_exists h then run_checked (venv_command h) (venv_create h)
                     else ([], Inr ()))
      in case created of
           (t1, Inl CalledProcessError) \<Rightarrow> (t0 @ t1 @ [Print Msg_venv_create_failed], Inr None)
         | (t1, Inl e) \<Rightarrow> (t0 @ t1, Inl e)
         | (t1, Inr u) \<Rightarrow>
             (let venv_python = resolve_venv_python (os_name h) venv_dir in
              case run_checked (pip_command venv_python) (venv_pip h) of
                (t2, Inr u) \<Rightarrow>
                  (t0 @ t1 @ t2 @ [Print Msg_venv_installed, Print Msg_venv_hint],
                   Inr (Some venv_python))
              | (t2, Inl CalledProcessError) \<Rightarrow>
                  (t0 @ t1 @ t2 @ [Print Msg_venv_install_failed], Inr None)
              | (t2, Inl e) \<Rightarrow> (t0 @ t1 @ t2, Inl e)))"

definition install_dependencies :: "host \<Rightarrow> event list \<times> (exn + string option)" where
  "install_dependencies h =
     (let t0 = [Print Msg_installing, Run (pip_command (sys_executable h))] in
      case system_pip h of
        None \<Rightarrow> (t0, Inl OSError)
      | Some result \<Rightarrow>
          (let t1 = t0 @ (if stdout result \<noteq> [] then [Stdout_write (stdout result)] else [])
                       @ (if stderr result \<noteq> [] then [Stderr_write (stderr result)] else [])
           in if returncode result = 0
              then (t1 @ [Print Msg_install_done], Inr (Some (sys_executable h)))
              else if contains (stderr result) ''externally-managed-environment''
              then (case install_with_virtualenv h of (t2, r) \<Rightarrow> (t1 @ t2, r))
              else (t1 @ [Print Msg_install_failed], Inr None)))"

section \<open>The application launcher\<close>

datatype child_result =
    Child_exited int
  | Child_interrupted  \<comment> \<open>\<open>KeyboardInterrupt\<close> while waiting for the child\<close>
  | Child_not_started  \<comment> \<open>\<open>OSError\<close>: the interpreter could not be executed\<close>

record invocation =
  argv :: "string list"
  child_env :: "string \<rightharpoonup> string"

record launch =
  messages :: "message list"
  invoked :: invocation
  raised :: "exn option"

definition run_application :: "string \<Rightarrow> (string \<rightharpoonup> string) \<Rightarrow> child_result \<Rightarrow> launch" where
  \<comment> \<open>\<open>environ\<close> is \<open>os.environ\<close>; the third argument is how the child run ends\<close>
  "run_application python_exec environ outcome =
     (let banner = [Msg_starting, Msg_url, Msg_how_to_stop, Msg_rule];
          env = environ(''PORT'' \<mapsto> ''25254'');
          call = \<lparr>argv = [python_exec, ''-m'', ''app.main''], child_env = env\<rparr>
      in case outcome of
           Child_exited rc \<Rightarrow>
             if rc = 0 then \<lparr>messages = banner, invoked = call, raised = None\<rparr>
             else \<lparr>messages = banner @ [Msg_app_failed], invoked = call, raised = None\<rparr>
         | Child_interrupted \<Rightarrow>
             \<lparr>messages = banner @ [Msg_app_stopped], invoked = call, raised = None\<rparr>
         | Child_not_started \<Rightarrow>
             \<lparr>messages = banner, invoked = call, raised = Some OSError\<rparr>)"

section \<open>Notions used in the statements\<close>







section \<open>Splitting and the dictionary\<close>
















section \<open>Line parsing\<close>



section \<open>Duplicates\<close>





section \<open>The positional fallback\<close>











section \<open>Lines with an empty key\<close>










section \<open>Comments and quotes\<close>









section \<open>The written environment file\<close>








section \<open>Interrupted prompting\<close>





section \<open>Launching the application\<close>

text \<open>
  Claim C9. The launcher runs \<open>python_exec -m app.main\<close> with the inherited environment
  in which \<open>PORT\<close> is set to \<open>25254\<close> and every other variable is unchanged. A non-zero
  exit status of the child and an interrupt while it runs are both caught: nothing is
  raised, and the failure message, respectively the stop message, is printed after the
  banner.
\<close>

theorem run_application_contract:
  "invoked (run_application python_exec environ outcome)
     = \<lparr>argv = [python_exec, ''-m'', ''app.main''], child_env = environ(''PORT'' \<mapsto> ''25254'')\<rparr>
   \<and> child_env (invoked (run_application python_exec environ outcome)) ''PORT'' = Some ''25254''
   \<and> (\<forall>k. k \<noteq> ''PORT'' \<longrightarrow>
         child_env (invoked (run_application python_exec environ outcome)) k = environ k)
   \<and> (outcome = Child_exited rc \<and> rc \<noteq> 0 \<longrightarrow>
         raised (run_application python_exec environ outcome) = None
         \<and> messages (run_application python_exec environ outcome)
             = [Msg_starting, Msg_url, Msg_how_to_stop, Msg_rule, Msg_app_failed])
   \<and> (outcome = Child_interrupted \<longrightarrow>
         raised (run_application python_exec environ outcome) = None
         \<and> messages (run_application python_exec environ outcome)
             = [Msg_starting, Msg_url, Msg_how_to_stop, Msg_rule, Msg_app_stopped])"
  by (cases outcome) (simp_all add: run_application_def Let_def)

theorem run_application_contract_witness:
  "child_env (invoked (run_application ''.venv/bin/python'' [''PORT'' \<mapsto> ''80'', ''HOME'' \<mapsto> ''/root'']
       (Child_exited 3))) ''PORT'' = Some ''25254''
   \<and> child_env (invoked (run_application ''.venv/bin/python'' [''PORT'' \<mapsto> ''80'', ''HOME'' \<mapsto> ''/root'']
       (Child_exited 3))) ''HOME'' = Some ''/root''
   \<and> argv (invoked (run_application ''.venv/bin/python'' [''PORT'' \<mapsto> ''80'', ''HOME'' \<mapsto> ''/root'']
       (Child_exited 3))) = [''.venv/bin/python'', ''-m'', ''app.main'']
   \<and> raised (run_application ''.venv/bin/python'' [''PORT'' \<mapsto> ''80'', ''HOME'' \<mapsto> ''/root'']
       (Child_exited 3)) = None
   \<and> messages (run_application ''.venv/bin/python'' [''PORT'' \<mapsto> ''80'', ''HOME'' \<mapsto> ''/root'']
       (Child_exited 3)) = [Msg_starting, Msg_url, Msg_how_to_stop, Msg_rule, Msg_app_failed]
   \<and> raised (run_application ''python3'' Map.empty Child_interrupted) = None
   \<and> messages (run_application ''python3'' Map.empty Child_interrupted)
       = [Msg_starting, Msg_url, Msg_how_to_stop, Msg_rule, Msg_app_stopped]"
  using run_application_contract[where python_exec = "''.venv/bin/python''"
      and environ = "[''PORT'' \<mapsto> ''80'', ''HOME'' \<mapsto> ''/root'']"
      and outcome = "Child_exited 3" and rc = 3]
    run_application_contract[where python_exec = "''python3''" and environ = Map.empty
      and outcome = Child_interrupted]
  by simp

section \<open>Installing the dependencies\<close>

lemma venv_result_cases:
  "snd (install_with_virtualenv h) =
     (if venv_exists h \<or> venv_create h = Some 0 then
        (case venv_pip h of
           None \<Rightarrow> Inl OSError
         | Some rc \<Rightarrow> if rc = 0 then Inr (Some (resolve_venv_python (os_name h) venv_dir))
                      else Inr None)
      else (case venv_create h of None \<Rightarrow> Inl OSError | Some rc \<Rightarrow> Inr None))"
  by (auto simp: install_with_virtualenv_def run_checked_def Let_def split: option.splits)

lemma venv_creations:
  "count_list (fst (install_with_virtualenv h)) (Run (venv_command h)) =
     (if venv_exists h then 0 else 1)"
  by (auto simp: install_with_virtualenv_def run_checked_def Let_def venv_command_def
        pip_command_def split: option.splits)

lemma install_delegates:
  assumes "system_pip h = Some r" "returncode r \<noteq> 0"
    "contains (stderr r) ''externally-managed-environment''"
  shows "snd (install_dependencies h) = snd (install_with_virtualenv h)"
    and "count_list (fst (install_dependencies h)) (Run (venv_command h)) =
           count_list (fst (install_with_virtualenv h)) (Run (venv_command h))"
  using assms
  by (auto simp: install_dependencies_def Let_def venv_command_def pip_command_def
        split: prod.splits)

text \<open>
  Claim C7, as the code has it, for a first install command that ran and returned \<open>r\<close>.
  With exit status zero the installer returns the path of the running interpreter, and
  with any other status it does not (that path being different from the path of the
  interpreter of the virtual environment). With a non-zero status and the marker
  \<open>externally-managed-environment\<close> in the captured error text the result is the one of
  \<open>_install_with_virtualenv\<close>, and the command that creates the environment runs once
  when the directory does not exist and not at all when it exists. A non-zero status
  without the marker gives \<open>None\<close> and creates nothing. In the fallback, a non-zero exit
  status of the creation command or of the install command gives \<open>None\<close>, and success
  of both gives the path of the interpreter of the environment.
\<close>

theorem install_dependencies_outcomes:
  assumes "system_pip h = Some r"
  shows "(returncode r = 0 \<longrightarrow> snd (install_dependencies h) = Inr (Some (sys_executable h)))
   \<and> (returncode r \<noteq> 0 \<and> sys_executable h \<noteq> resolve_venv_python (os_name h) venv_dir \<longrightarrow>
        snd (install_dependencies h) \<noteq> Inr (Some (sys_executable h)))
   \<and> (returncode r \<noteq> 0 \<and> contains (stderr r) ''externally-managed-environment'' \<longrightarrow>
        snd (install_dependencies h) = snd (install_with_virtualenv h)
        \<and> count_list (fst (install_dependencies h)) (Run (venv_command h))
            = (if venv_exists h then 0 else 1))
   \<and> (returncode r \<noteq> 0 \<and> \<not> contains (stderr r) ''externally-managed-environment'' \<longrightarrow>
        snd (install_dependencies h) = Inr None
        \<and> count_list (fst (install_dependencies h)) (Run (venv_command h)) = 0)
   \<and> (returncode r \<noteq> 0 \<and> contains (stderr r) ''externally-managed-environment''
        \<and> \<not> venv_exists h \<and> venv_create h = Some c \<and> c \<noteq> 0 \<longrightarrow>
        snd (install_dependencies h) = Inr None)
   \<and> (returncode r \<noteq> 0 \<and> contains (stderr r) ''externally-managed-environment''
        \<and> (venv_exists h \<or> venv_create h = Some 0) \<and> venv_pip h = Some c \<and> c \<noteq> 0 \<longrightarrow>
        snd (install_dependencies h) = Inr None)
   \<and> (returncode r \<noteq> 0 \<and> contains (stderr r) ''externally-managed-environment''
        \<and> (venv_exists h \<or> venv_create h = Some 0) \<and> venv_pip h = Some 0 \<longrightarrow>
        snd (install_dependencies h) = Inr (Some (resolve_venv_python (os_name h) venv_dir)))"
proof (intro conjI impI)
  assume "returncode r = 0"
  then show "snd (install_dependencies h) = Inr (Some (sys_executable h))"
    using assms by (simp add: install_dependencies_def Let_def)
next
  assume a: "returncode r \<noteq> 0 \<and> sys_executable h \<noteq> resolve_venv_python (os_name h) venv_dir"
  show "snd (install_dependencies h) \<noteq> Inr (Some (sys_executable h))"
  proof (cases "contains (stderr r) ''externally-managed-environment''")
    case True
    with a assms have "snd (install_dependencies h) = snd (install_with_virtualenv h)"
      by (simp add: install_delegates(1))
    with a show ?thesis
      by (auto simp: venv_result_cases split: option.splits if_splits)
  next
    case False
    with a assms show ?thesis by (simp add: install_dependencies_def Let_def)
  qed
next
  assume a: "returncode r \<noteq> 0 \<and> contains (stderr r) ''externally-managed-environment''"
  with assms show "snd (install_dependencies h) = snd (install_with_virtualenv h)"
    by (simp add: install_delegates(1))
  from a assms have "count_list (fst (install_dependencies h)) (Run (venv_command h))
            = count_list (fst (install_with_virtualenv h)) (Run (venv_command h))"
    by (simp add: install_delegates(2))
  then show "count_list (fst (install_dependencies h)) (Run (venv_command h))
            = (if venv_exists h then 0 else 1)"
    by (simp only: venv_creations)
next
  assume a: "returncode r \<noteq> 0 \<and> \<not> contains (stderr r) ''externally-managed-environment''"
  with assms show "snd (install_dependencies h) = Inr None"
    by (simp add: install_dependencies_def Let_def)
  from a assms show "count_list (fst (install_dependencies h)) (Run (venv_command h)) = 0"
    by (simp add: install_dependencies_def Let_def venv_command_def pip_command_def)
next
  assume a: "returncode r \<noteq> 0 \<and> contains (stderr r) ''externally-managed-environment''
        \<and> \<not> venv_exists h \<and> venv_create h = Some c \<and> c \<noteq> 0"
  with assms have "snd (install_dependencies h) = snd (install_with_virtualenv h)"
    by (simp add: install_delegates(1))
  with a show "snd (install_dependencies h) = Inr None"
    by (simp add: venv_result_cases)
next
  assume a: "returncode r \<noteq> 0 \<and> contains (stderr r) ''externally-managed-environment''
        \<and> (venv_exists h \<or> venv_create h = Some 0) \<and> venv_pip h = Some c \<and> c \<noteq> 0"
  with assms have "snd (install_dependencies h) = snd (install_with_virtualenv h)"
    by (simp add: install_delegates(1))
  with a show "snd (install_dependencies h) = Inr None"
    by (auto simp: venv_result_cases)
next
  assume a: "returncode r \<noteq> 0 \<and> contains (stderr r) ''externally-managed-environment''
        \<and> (venv_exists h \<or> venv_create h = Some 0) \<and> venv_pip h = Some 0"
  with assms have "snd (install_dependencies h) = snd (install_with_virtualenv h)"
    by (simp add: install_delegates(1))
  with a show "snd (install_dependencies h) = Inr (Some (resolve_venv_python (os_name h) venv_dir))"
    by (auto simp: venv_result_cases)
qed

theorem install_dependencies_outcomes_witness:
  "snd (install_dependencies
      \<lparr>sys_executable = ''/usr/bin/python3'', os_name = ''posix'',
       system_pip = Some \<lparr>returncode = 0, stdout = [], stderr = []\<rparr>,
       venv_exists = False, venv_create = None, venv_pip = None\<rparr>) = Inr (Some ''/usr/bin/python3'')
   \<and> snd (install_dependencies
      \<lparr>sys_executable = ''/usr/bin/python3'', os_name = ''posix'',
       system_pip = Some \<lparr>returncode = 1, stdout = [], stderr = ''error: externally-managed-environment''\<rparr>,
       venv_exists = False, venv_create = Some 0, venv_pip = Some 0\<rparr>) = Inr (Some ''.venv/bin/python'')
   \<and> count_list (fst (install_dependencies
      \<lparr>sys_executable = ''/usr/bin/python3'', os_name = ''posix'',
       system_pip = Some \<lparr>returncode = 1, stdout = [], stderr = ''error: externally-managed-environment''\<rparr>,
       venv_exists = False, venv_create = Some 0, venv_pip = Some 0\<rparr>)) (Run [''/usr/bin/python3'', ''-m'', ''venv'', ''.venv'']) = 1
   \<and> snd (install_dependencies
      \<lparr>sys_executable = ''/usr/bin/python3'', os_name = ''posix'',
       system_pip = Some \<lparr>returncode = 1, stdout = [], stderr = ''error: externally-managed-environment''\<rparr>,
       venv_exists = True, venv_create = None, venv_pip = Some 2\<rparr>) = Inr None
   \<and> count_list (fst (install_dependencies
      \<lparr>sys_executable = ''/usr/bin/python3'', os_name = ''posix'',
       system_pip = Some \<lparr>returncode = 1, stdout = [], stderr = ''error: externally-managed-environment''\<rparr>,
       venv_exists = True, venv_create = None, venv_pip = Some 2\<rparr>)) (Run [''/usr/bin/python3'', ''-m'', ''venv'', ''.venv'']) = 0
   \<and> snd (install_dependencies
      \<lparr>sys_executable = ''/usr/bin/python3'', os_name = ''posix'',
       system_pip = Some \<lparr>returncode = 1, stdout = [], stderr = ''error: no network''\<rparr>,
       venv_exists = False, venv_create = None, venv_pip = None\<rparr>) = Inr None
   \<and> snd (install_dependencies
      \<lparr>sys_executable = ''/usr/bin/python3'', os_name = ''posix'',
       system_pip = Some \<lparr>returncode = 1, stdout = [], stderr = ''error: externally-managed-environment''\<rparr>,
       venv_exists = False, venv_create = Some 1, venv_pip = None\<rparr>) = Inr None"
proof -
  have m: "contains ''error: externally-managed-environment'' ''externally-managed-environment''"
    "\<not> contains ''error: no network'' ''externally-managed-environment''"
    by code_simp+
  show ?thesis
    using m
      install_dependencies_outcomes[where h = "\<lparr>sys_executable = ''/usr/bin/python3'', os_name = ''posix'',
       system_pip = Some \<lparr>returncode = 0, stdout = [], stderr = []\<rparr>,
       venv_exists = False, venv_create = None, venv_pip = None\<rparr>"
        and r = "\<lparr>returncode = 0, stdout = [], stderr = []\<rparr>"]
      install_dependencies_outcomes[where h = "\<lparr>sys_executable = ''/usr/bin/python3'', os_name = ''posix'',
       system_pip = Some \<lparr>returncode = 1, stdout = [], stderr = ''error: externally-managed-environment''\<rparr>,
       venv_exists = False, venv_create = Some 0, venv_pip = Some 0\<rparr>"
        and r = "\<lparr>returncode = 1, stdout = [], stderr = ''error: externally-managed-environment''\<rparr>"]
      install_dependencies_outcomes[where h = "\<lparr>sys_executable = ''/usr/bin/python3'', os_name = ''posix'',
       system_pip = Some \<lparr>returncode = 1, stdout = [], stderr = ''error: externally-managed-environment''\<rparr>,
       venv_exists = True, venv_create = None, venv_pip = Some 2\<rparr>"
        and r = "\<lparr>returncode = 1, stdout = [], stderr = ''error: externally-managed-environment''\<rparr>" and c = 2]
      install_dependencies_outcomes[where h = "\<lparr>sys_executable = ''/usr/bin/python3'', os_name = ''posix'',
       system_pip = Some \<lparr>returncode = 1, stdout = [], stderr = ''error: no network''\<rparr>,
       venv_exists = False, venv_create = None, venv_pip = None\<rparr>"
        and r = "\<lparr>returncode = 1, stdout = [], stderr = ''error: no network''\<rparr>"]
      install_dependencies_outcomes[where h = "\<lparr>sys_executable = ''/usr/bin/python3'', os_name = ''posix'',
       system_pip = Some \<lparr>returncode = 1, stdout = [], stderr = ''error: externally-managed-environment''\<rparr>,
       venv_exists = False, venv_create = Some 1, venv_pip = None\<rparr>"
        and r = "\<lparr>returncode = 1, stdout = [], stderr = ''error: externally-managed-environment''\<rparr>" and c = 1]
    by (simp add: venv_command_def venv_dir_def resolve_venv_python_def venv_result_cases)
qed

text \<open>
  Claim C7 as stated fails for a failure of the fallback that is not an exit status: when
  the directory \<open>.venv\<close> exists and its interpreter cannot be started, \<open>subprocess.run\<close>
  raises \<open>OSError\<close>, which the handler for \<open>CalledProcessError\<close> does not catch, so
  the installer raises instead of returning \<open>None\<close>.
\<close>

theorem venv_interpreter_missing_counterexample:
  "snd (install_dependencies
      \<lparr>sys_executable = ''/usr/bin/python3'', os_name = ''posix'',
       system_pip = Some \<lparr>returncode = 1, stdout = [],
                          stderr = ''error: externally-managed-environment''\<rparr>,
       venv_exists = True, venv_create = None, venv_pip = None\<rparr>) = Inl OSError"
  by code_simp

end
